theory Spec2Isabelle
  imports Main
begin

section \<open>Trade document analyzer: the two revisions of the page\<close>

text \<open>
  The repository holds two revisions of one React component \<open>App\<close>:
  \<open>src/index.tsx\<close> and \<open>src/unnamed/part_000\<close>. Both keep the same pieces of state, three
  upload slots, a loading flag, the result text, the error text and the label of the copy
  button; \<open>part_000\<close> adds a status message. Definitions that differ between the two files
  carry the suffix \<open>_index\<close> or \<open>_part000\<close>; definitions without a suffix are the same
  text in both files.

  The browser and the SDK are not part of the repository. They enter the model as the
  record \<open>env\<close>: the value of \<open>process.env.API_KEY\<close>, the constructor of the SDK client,
  the \<open>FileReader\<close> and the remote \<open>generateContent\<close> call.
\<close>

subsection \<open>JavaScript values\<close>

text \<open>
  A value that may be \<open>undefined\<close> or \<open>null\<close> is an \<open>option\<close>. \<open>truthy\<close> is the test
  JavaScript applies to a string in \<open>if (x)\<close> and \<open>x && ...\<close>: \<open>undefined\<close>, \<open>null\<close> and
  the empty string are falsy.
\<close>

definition truthy :: "string option \<Rightarrow> bool" where
  "truthy x = (case x of None \<Rightarrow> False | Some t \<Rightarrow> t \<noteq> [])"

text \<open>\<open>s.split(c)\<close> for a separator of one character: the pieces between the separators.\<close>

fun js_split :: "char \<Rightarrow> string \<Rightarrow> string list" where
  "js_split sep [] = [[]]"
| "js_split sep (c # cs) =
     (if c = sep then [] # js_split sep cs
      else (let r = js_split sep cs in (c # hd r) # tl r))"

text \<open>\<open>xs[i]\<close>: \<open>undefined\<close> out of range.\<close>

definition js_index :: "'a list \<Rightarrow> nat \<Rightarrow> 'a option" where
  "js_index xs i = (if i < length xs then Some (xs ! i) else None)"

fun startsWith :: "string \<Rightarrow> string \<Rightarrow> bool" where
  "startsWith s [] = True"
| "startsWith [] (c # cs) = False"
| "startsWith (d # ds) (c # cs) = (d = c \<and> startsWith ds cs)"

text \<open>\<open>s.includes(t)\<close>: \<open>t\<close> occurs in \<open>s\<close> as a contiguous substring.\<close>

fun str_includes :: "string \<Rightarrow> string \<Rightarrow> bool" where
  "str_includes [] t = (t = [])"
| "str_includes (c # cs) t = (startsWith (c # cs) t \<or> str_includes cs t)"

text \<open>
  What a \<open>catch\<close> clause receives: an instance of \<open>Error\<close> with its message, or any other
  value (the \<open>ProgressEvent\<close> of a failed read is one).
\<close>

datatype thrown = Error string | NonError

text \<open>A promise, seen from the code that awaits it.\<close>

datatype 'a promise = Resolved 'a | Rejected thrown | Pending

subsection \<open>Data\<close>

text \<open>
  A \<open>File\<close> of the browser: its \<open>name\<close>, \<open>size\<close> and \<open>type\<close> (the MIME type), and
  its bytes, which the code reaches only through a \<open>FileReader\<close>.
\<close>

record File =
  file_name :: string
  file_size :: nat
  file_type :: string
  file_content :: string

datatype Part = Text string | InlineData "string option" string

record request =
  model :: string
  parts :: "Part list"

record env =
  API_KEY :: "string option"
  newGoogleGenAI :: "string option \<Rightarrow> thrown option"
  readAsDataURL :: "File \<Rightarrow> string option"
  generateContent :: "request \<Rightarrow> string option promise"

text \<open>
  \<open>newGoogleGenAI env k\<close> is \<open>Some e\<close> when \<open>new GoogleGenAI({apiKey: k})\<close> throws \<open>e\<close>.
  \<open>readAsDataURL env f\<close> is \<open>reader.result\<close> at \<open>loadend\<close>: the data URL, or \<open>None\<close>
  (\<open>null\<close>) after a failed read, in which case the reader has fired \<open>error\<close> first.
  \<open>generateContent env r\<close> is the promise returned by \<open>ai.models.generateContent(r)\<close>,
  resolved with the \<open>text\<close> of the response, which may be \<open>undefined\<close>.
\<close>

datatype callback = SetCopyButtonText string

datatype effect =
    ReadFile File
  | GenerateContent request
  | ConsoleError thrown
  | ClipboardWrite string
  | SetTimeout callback nat

record state =
  ciFile :: "File option"
  plFile :: "File option"
  blFile :: "File option"
  loading :: bool
  statusMessage :: string
  result :: "string option"
  error :: string
  copyButtonText :: string

definition initial :: state where
  "initial = \<lparr>ciFile = None, plFile = None, blFile = None, loading = False,
     statusMessage = [], result = Some [], error = [], copyButtonText = ''Copy''\<rparr>"

datatype slot = CI | PL | BL

text \<open>The three setters \<open>setCiFile\<close>, \<open>setPlFile\<close>, \<open>setBlFile\<close>, and the matching reads.\<close>

fun setter :: "slot \<Rightarrow> File option \<Rightarrow> state \<Rightarrow> state" where
  "setter CI f s = s\<lparr>ciFile := f\<rparr>"
| "setter PL f s = s\<lparr>plFile := f\<rparr>"
| "setter BL f s = s\<lparr>blFile := f\<rparr>"

fun slot_file :: "state \<Rightarrow> slot \<Rightarrow> File option" where
  "slot_file s CI = ciFile s"
| "slot_file s PL = plFile s"
| "slot_file s BL = blFile s"

definition anyFileUploaded :: "state \<Rightarrow> bool" where
  "anyFileUploaded s = (ciFile s \<noteq> None \<or> plFile s \<noteq> None \<or> blFile s \<noteq> None)"

text \<open>The \<open>disabled\<close> attribute of the trigger button.\<close>

definition disabled :: "state \<Rightarrow> bool" where
  "disabled s = (\<not> anyFileUploaded s \<or> loading s)"

subsection \<open>The fixed texts\<close>

definition prompt_index :: string where
  \<open>prompt_index =
     ''You are an expert AI assistant specializing in international trade document analysis. Your primary task is to accurately extract key information from the provided document(s) (e.g., Commercial Invoice, Packing List, Bill of Lading).\<newline>'' @
     ''\<newline>'' @
     ''**Instructions:**\<newline>'' @
     ''1.  Analyze all attached documents carefully.\<newline>'' @
     ''2.  Extract the data points listed under "General Information" and present them in a clean "Key: Value" format.\<newline>'' @
     ''3.  Extract all container details from the Bill of Lading and present them in a clear, multi-line list or table format.\<newline>'' @
     ''4.  If a piece of information is not available in the provided document(s), state "Not Found".\<newline>'' @
     ''\<newline>'' @
     ''**General Information:**\<newline>'' @
     ''* **Total Invoice Value (USD):**\<newline>'' @
     ''* **Total Packages:**\<newline>'' @
     ''* **SAP Cargo PO:**\<newline>'' @
     ''* **Invoice Number:**\<newline>'' @
     ''* **BL/AWB Number:**\<newline>'' @
     ''* **Shipper:**\<newline>'' @
     ''* **Incoterm:**\<newline>'' @
     ''* **Description:**\<newline>'' @
     ''* **Carrier:**\<newline>'' @
     ''* **Vessel:**\<newline>'' @
     ''* **Freight Value (USD):**\<newline>'' @
     ''* **CBM:**\<newline>'' @
     ''\<newline>'' @
     ''**Container Details:**\<newline>'' @
     ''(List all containers found in the Bill of Lading below, with Container Number, Seal Number, and Container Type)\<newline>'' @
     ''''\<close>

definition prompt_part000 :: string where
  \<open>prompt_part000 =
     ''You are an expert AI assistant specializing in international trade document analysis. \<newline>'' @
     ''Your task is to extract key data from the uploaded files (Commercial Invoice, Packing List, or Bill of Lading).\<newline>'' @
     ''\<newline>'' @
     ''**Instructions:**\<newline>'' @
     ''1. Extract the following "General Information" fields in "Key: Value" format.\<newline>'' @
     ''2. If multiple documents are provided, cross-reference them for accuracy.\<newline>'' @
     ''3. Extract all container details from the Bill of Lading into a formatted table or clear list.\<newline>'' @
     ''4. If any field is missing, strictly write "Not Found".\<newline>'' @
     ''\<newline>'' @
     ''**Extraction Fields:**\<newline>'' @
     ''- Total Invoice Value (USD)\<newline>'' @
     ''- Total Packages\<newline>'' @
     ''- SAP Cargo PO\<newline>'' @
     ''- Invoice Number\<newline>'' @
     ''- BL/AWB Number\<newline>'' @
     ''- Shipper\<newline>'' @
     ''- Incoterm\<newline>'' @
     ''- Description of Goods\<newline>'' @
     ''- Carrier\<newline>'' @
     ''- Vessel/Voyage\<newline>'' @
     ''- Freight Value (USD)\<newline>'' @
     ''- CBM (Total Volume)\<newline>'' @
     ''\<newline>'' @
     ''**Container Details:**\<newline>'' @
     ''Extract: Container Number, Seal Number, and Container Type.''\<close>

definition model_index :: string where
  "model_index = ''gemini-2.5-flash''"

definition model_part000 :: string where
  "model_part000 = ''gemini-3-flash-preview''"

definition no_file_message_index :: string where
  "no_file_message_index = ''Please upload at least one document.''"

definition no_file_message_part000 :: string where
  "no_file_message_part000 = ''Please upload at least one document to begin analysis.''"

definition missing_key_message :: string where
  "missing_key_message = ''API Key is missing. Please check your environment configuration.''"

definition empty_response_message :: string where
  "empty_response_message =
     ''The model returned an empty response. Please try again with clearer documents.''"

definition configuration_error_message :: string where
  "configuration_error_message =
     ''Configuration Error: The API Key is not being correctly passed to the application. Check your Vercel Environment Variables.''"

definition unexpected_message_index :: string where
  "unexpected_message_index = ''An unexpected error occurred. Please try again.''"

definition unexpected_message_part000 :: string where
  "unexpected_message_part000 = ''An unexpected error occurred.''"

subsection \<open>handleFileChange\<close>

text \<open>
  The argument \<open>files\<close> is \<open>e.target.files\<close>: \<open>None\<close> for \<open>null\<close>, otherwise the list of
  chosen files, which is empty when the user dismisses the picker. \<open>files[0]\<close> of an empty
  list is \<open>undefined\<close>, which every later test treats like \<open>null\<close>.
\<close>

definition handleFileChange_index :: "File list option \<Rightarrow> slot \<Rightarrow> state \<Rightarrow> state" where
  "handleFileChange_index files k s =
     (case files of
        None \<Rightarrow> s
      | Some fs \<Rightarrow> (setter k (js_index fs 0) s)\<lparr>result := Some [], error := []\<rparr>)"

definition handleFileChange_part000 :: "File list option \<Rightarrow> slot \<Rightarrow> state \<Rightarrow> state" where
  "handleFileChange_part000 files k s =
     (case files of
        None \<Rightarrow> s
      | Some fs \<Rightarrow>
          if length fs > 0
          then (setter k (js_index fs 0) s)\<lparr>result := Some [], error := []\<rparr>
          else s)"

subsection \<open>handleCopy\<close>

text \<open>
  The handler returns the new state and what it asked of the browser: the text handed to
  \<open>navigator.clipboard.writeText\<close> and the callback given to \<open>setTimeout\<close> with its delay
  in milliseconds. \<open>run_callback\<close> is what the browser does when the timer fires.
\<close>

definition handleCopy :: "state \<Rightarrow> state \<times> effect list" where
  "handleCopy s =
     (case result s of
        None \<Rightarrow> (s, [])
      | Some t \<Rightarrow>
          if t = [] then (s, [])
          else (s\<lparr>copyButtonText := ''Copied!''\<rparr>,
                [ClipboardWrite t, SetTimeout (SetCopyButtonText ''Copy'') 2000]))"

fun run_callback :: "callback \<Rightarrow> state \<Rightarrow> state" where
  "run_callback (SetCopyButtonText t) s = s\<lparr>copyButtonText := t\<rparr>"

subsection \<open>fileToGenerativePart\<close>

text \<open>
  \<open>(reader.result as string).split(',')[1]\<close>: the text after the first comma of the data
  URL, up to the next comma if there is one, and \<open>undefined\<close> if the URL has no comma.

  In \<open>index.tsx\<close> the promise is created with \<open>resolve\<close> only. After a failed read
  \<open>onloadend\<close> runs with \<open>reader.result\<close> equal to \<open>null\<close>, the call of \<open>split\<close> throws inside
  the event handler, \<open>resolve\<close> is never called and the promise stays pending. In
  \<open>part_000\<close> the line \<open>reader.onerror = reject\<close> rejects the promise with the event of
  the failed read, which is not an \<open>Error\<close>.
\<close>

definition base64_of :: "string \<Rightarrow> string option" where
  "base64_of url = js_index (js_split CHR '','' url) 1"

definition fileToGenerativePart_index :: "env \<Rightarrow> File \<Rightarrow> Part promise" where
  "fileToGenerativePart_index env file =
     (case readAsDataURL env file of
        None \<Rightarrow> Pending
      | Some url \<Rightarrow> Resolved (InlineData (base64_of url) (file_type file)))"

definition fileToGenerativePart_part000 :: "env \<Rightarrow> File \<Rightarrow> Part promise" where
  "fileToGenerativePart_part000 env file =
     (case readAsDataURL env file of
        None \<Rightarrow> Rejected NonError
      | Some url \<Rightarrow> Resolved (InlineData (base64_of url) (file_type file)))"

subsection \<open>handleAnalyze\<close>

text \<open>
  One line \<open>if (f) parts.push(await fileToGenerativePart(f))\<close>. The pair holds the reads
  made so far and the list \<open>parts\<close>; once a read has rejected or hangs, the later lines do
  not run.
\<close>

definition push_part ::
  "(File \<Rightarrow> Part promise) \<Rightarrow> File option \<Rightarrow> effect list \<times> Part list promise
     \<Rightarrow> effect list \<times> Part list promise" where
  "push_part enc f b =
     (case b of
        (effs, Resolved ps) \<Rightarrow>
          (case f of
             None \<Rightarrow> (effs, Resolved ps)
           | Some file \<Rightarrow>
               (case enc file of
                  Resolved p \<Rightarrow> (effs @ [ReadFile file], Resolved (ps @ [p]))
                | Rejected e \<Rightarrow> (effs @ [ReadFile file], Rejected e)
                | Pending \<Rightarrow> (effs @ [ReadFile file], Pending)))
      | (effs, Rejected e) \<Rightarrow> (effs, Rejected e)
      | (effs, Pending) \<Rightarrow> (effs, Pending))"

definition build_parts ::
  "(File \<Rightarrow> Part promise) \<Rightarrow> string \<Rightarrow> state \<Rightarrow> effect list \<times> Part list promise" where
  "build_parts enc prompt s =
     push_part enc (blFile s) (push_part enc (plFile s) (push_part enc (ciFile s)
       ([], Resolved [Text prompt])))"

text \<open>
  The outcome of one run of the handler with no other event in between: refused at the
  first test, run to the end of \<open>finally\<close>, or left waiting for a promise that never
  settles. The list holds the calls made to the browser and the SDK, in order.
\<close>

datatype attempt = Refused state | Finished state "effect list" | Stuck state "effect list"

fun state_of :: "attempt \<Rightarrow> state" where
  "state_of (Refused s) = s"
| "state_of (Finished s effs) = s"
| "state_of (Stuck s effs) = s"

fun effects_of :: "attempt \<Rightarrow> effect list" where
  "effects_of (Refused s) = []"
| "effects_of (Finished s effs) = effs"
| "effects_of (Stuck s effs) = effs"

paragraph \<open>\<open>src/index.tsx\<close>\<close>


definition prologue_index :: "state \<Rightarrow> state" where
  "prologue_index s = s\<lparr>loading := True, result := Some [], error := [], copyButtonText := ''Copy''\<rparr>"

definition try_block_index :: "env \<Rightarrow> state \<Rightarrow> state \<times> effect list \<times> unit promise" where
  "try_block_index env s =
     (case build_parts (fileToGenerativePart_index env) prompt_index s of
        (effs, Resolved ps) \<Rightarrow>
          (let req = \<lparr>model = model_index, parts = ps\<rparr> in
           case generateContent env req of
             Resolved t \<Rightarrow> (s\<lparr>result := t\<rparr>, effs @ [GenerateContent req], Resolved ())
           | Rejected e \<Rightarrow> (s, effs @ [GenerateContent req], Rejected e)
           | Pending \<Rightarrow> (s, effs @ [GenerateContent req], Pending))
      | (effs, Rejected e) \<Rightarrow> (s, effs, Rejected e)
      | (effs, Pending) \<Rightarrow> (s, effs, Pending))"

definition catch_index :: "thrown \<Rightarrow> state \<Rightarrow> state" where
  "catch_index err s =
     s\<lparr>error := (case err of Error m \<Rightarrow> m | NonError \<Rightarrow> unexpected_message_index)\<rparr>"

definition finally_index :: "state \<Rightarrow> state" where
  "finally_index s = s\<lparr>loading := False\<rparr>"

definition handleAnalyze_index :: "env \<Rightarrow> state \<Rightarrow> attempt" where
  "handleAnalyze_index env s =
     (if ciFile s = None \<and> plFile s = None \<and> blFile s = None
      then Refused (s\<lparr>error := no_file_message_index\<rparr>)
      else
        (case try_block_index env (prologue_index s) of
           (s', effs, Resolved u) \<Rightarrow> Finished (finally_index s') effs
         | (s', effs, Rejected e) \<Rightarrow>
             Finished (finally_index (catch_index e s')) (effs @ [ConsoleError e])
         | (s', effs, Pending) \<Rightarrow> Stuck s' effs))"

paragraph \<open>\<open>src/unnamed/part_000\<close>\<close>

definition prologue_part000 :: "state \<Rightarrow> state" where
  "prologue_part000 s =
     s\<lparr>loading := True, result := Some [], error := [], copyButtonText := ''Copy'',
       statusMessage := ''Preparing documents...''\<rparr>"

definition try_block_part000 :: "env \<Rightarrow> state \<Rightarrow> state \<times> effect list \<times> unit promise" where
  "try_block_part000 env s =
     (if \<not> truthy (API_KEY env) then (s, [], Rejected (Error missing_key_message))
      else
        (case newGoogleGenAI env (API_KEY env) of
           Some e \<Rightarrow> (s, [], Rejected e)
         | None \<Rightarrow>
             (let s1 = s\<lparr>statusMessage := ''Reading file data...''\<rparr> in
              case build_parts (fileToGenerativePart_part000 env) prompt_part000 s1 of
                (effs, Resolved ps) \<Rightarrow>
                  (let s2 = s1\<lparr>statusMessage := ''Analyzing documents with Gemini...''\<rparr>;
                       req = \<lparr>model = model_part000, parts = ps\<rparr> in
                   case generateContent env req of
                     Resolved t \<Rightarrow>
                       if \<not> truthy t
                       then (s2, effs @ [GenerateContent req],
                             Rejected (Error empty_response_message))
                       else (s2\<lparr>result := t\<rparr>, effs @ [GenerateContent req], Resolved ())
                   | Rejected e \<Rightarrow> (s2, effs @ [GenerateContent req], Rejected e)
                   | Pending \<Rightarrow> (s2, effs @ [GenerateContent req], Pending))
              | (effs, Rejected e) \<Rightarrow> (s1, effs, Rejected e)
              | (effs, Pending) \<Rightarrow> (s1, effs, Pending))))"

definition catch_part000 :: "thrown \<Rightarrow> state \<Rightarrow> state" where
  "catch_part000 err s =
     s\<lparr>error :=
         (case err of
            Error m \<Rightarrow>
              if str_includes m ''API Key must be set'' then configuration_error_message else m
          | NonError \<Rightarrow> unexpected_message_part000)\<rparr>"

definition finally_part000 :: "state \<Rightarrow> state" where
  "finally_part000 s = s\<lparr>loading := False, statusMessage := []\<rparr>"

definition handleAnalyze_part000 :: "env \<Rightarrow> state \<Rightarrow> attempt" where
  "handleAnalyze_part000 env s =
     (if ciFile s = None \<and> plFile s = None \<and> blFile s = None
      then Refused (s\<lparr>error := no_file_message_part000\<rparr>)
      else
        (case try_block_part000 env (prologue_part000 s) of
           (s', effs, Resolved u) \<Rightarrow> Finished (finally_part000 s') effs
         | (s', effs, Rejected e) \<Rightarrow>
             Finished (finally_part000 (catch_part000 e s')) (effs @ [ConsoleError e])
         | (s', effs, Pending) \<Rightarrow> Stuck s' effs))"

subsection \<open>Observing a run\<close>

text \<open>The requests handed to \<open>ai.models.generateContent\<close> during a run, in order.\<close>

fun requests_of :: "effect list \<Rightarrow> request list" where
  "requests_of [] = []"
| "requests_of (GenerateContent r # es) = r # requests_of es"
| "requests_of (e # es) = requests_of es"

text \<open>The files handed to the \<open>FileReader\<close> during a run, in order.\<close>

fun reads_of :: "effect list \<Rightarrow> File list" where
  "reads_of [] = []"
| "reads_of (ReadFile f # es) = f # reads_of es"
| "reads_of (e # es) = reads_of es"

text \<open>
  Vocabulary for the statements below: the files held by the three slots of a state, read
  off in the order \<open>ciFile\<close>, \<open>plFile\<close>, \<open>blFile\<close>, and the part that
  \<open>fileToGenerativePart\<close> makes of a file whose read succeeds.
\<close>

definition populated :: "state \<Rightarrow> File list" where
  "populated s = List.map_filter id [ciFile s, plFile s, blFile s]"

definition encoded :: "env \<Rightarrow> File \<Rightarrow> Part" where
  "encoded env f = InlineData (base64_of (the (readAsDataURL env f))) (file_type f)"

text \<open>The user picks one file for a slot, one selection after the other.\<close>

definition select_index :: "(slot \<times> File) list \<Rightarrow> state \<Rightarrow> state" where
  "select_index evs s = fold (\<lambda>(k, f). handleFileChange_index (Some [f]) k) evs s"

definition select_part000 :: "(slot \<times> File) list \<Rightarrow> state \<Rightarrow> state" where
  "select_part000 evs s = fold (\<lambda>(k, f). handleFileChange_part000 (Some [f]) k) evs s"

subsection \<open>The page as a transition system\<close>

text \<open>
  Between two events of the browser the code of a handler runs without interruption, up
  to its next \<open>await\<close>. A session is the state of the component together with the number
  of calls of \<open>handleAnalyze\<close> that have passed the first test and have not yet reached
  the end of \<open>finally\<close>. The events:
  \<^item> \<open>Select\<close>: a \<open>change\<close> event of one of the three file inputs;
  \<^item> \<open>Trigger\<close>: a click on the trigger button, which the browser delivers only when the
    button is not \<open>disabled\<close>; the handler runs up to the end of its prologue;
  \<^item> \<open>Status\<close>: one of the two calls of \<open>setStatusMessage\<close> inside the \<open>try\<close> block
    (\<open>part_000\<close> only);
  \<^item> \<open>Succeed\<close>: the \<open>try\<close> block reaches \<open>setResult\<close>, then \<open>finally\<close> runs; in
    \<open>part_000\<close> only with a truthy text;
  \<^item> \<open>Fail\<close>: the \<open>try\<close> block throws, \<open>catch\<close> and \<open>finally\<close> run;
  \<^item> \<open>Copy\<close>: a click on the copy button;
  \<^item> \<open>Timer\<close>: the callback that \<open>handleCopy\<close> gives to \<open>setTimeout\<close> runs.
\<close>

datatype revision = Index | Part000

fun handleFileChange :: "revision \<Rightarrow> File list option \<Rightarrow> slot \<Rightarrow> state \<Rightarrow> state" where
  "handleFileChange Index = handleFileChange_index"
| "handleFileChange Part000 = handleFileChange_part000"

fun prologue :: "revision \<Rightarrow> state \<Rightarrow> state" where
  "prologue Index = prologue_index"
| "prologue Part000 = prologue_part000"

fun catch_block :: "revision \<Rightarrow> thrown \<Rightarrow> state \<Rightarrow> state" where
  "catch_block Index = catch_index"
| "catch_block Part000 = catch_part000"

fun finally_block :: "revision \<Rightarrow> state \<Rightarrow> state" where
  "finally_block Index = finally_index"
| "finally_block Part000 = finally_part000"

record session =
  ui :: state
  outstanding :: nat

datatype event =
    Select slot "File list option"
  | Trigger
  | Status string
  | Succeed "string option"
  | Fail thrown
  | Copy
  | Timer callback

inductive step :: "revision \<Rightarrow> event \<Rightarrow> session \<Rightarrow> session \<Rightarrow> bool" for rv :: revision where
  select: "step rv (Select k files) c (c\<lparr>ui := handleFileChange rv files k (ui c)\<rparr>)"
| trigger: "\<not> disabled (ui c) \<Longrightarrow>
     step rv Trigger c \<lparr>ui = prologue rv (ui c), outstanding = Suc (outstanding c)\<rparr>"
| status: "rv = Part000 \<Longrightarrow> 0 < outstanding c \<Longrightarrow>
     m \<in> {''Reading file data...'', ''Analyzing documents with Gemini...''} \<Longrightarrow>
     step rv (Status m) c (c\<lparr>ui := (ui c)\<lparr>statusMessage := m\<rparr>\<rparr>)"
| succeed: "0 < outstanding c \<Longrightarrow> rv = Part000 \<longrightarrow> truthy t \<Longrightarrow>
     step rv (Succeed t) c
       \<lparr>ui = finally_block rv ((ui c)\<lparr>result := t\<rparr>), outstanding = outstanding c - 1\<rparr>"
| fail: "0 < outstanding c \<Longrightarrow>
     step rv (Fail e) c
       \<lparr>ui = finally_block rv (catch_block rv e (ui c)), outstanding = outstanding c - 1\<rparr>"
| copy: "step rv Copy c (c\<lparr>ui := fst (handleCopy (ui c))\<rparr>)"
| timer: "cb = SetCopyButtonText ''Copy'' \<Longrightarrow>
     step rv (Timer cb) c (c\<lparr>ui := run_callback cb (ui c)\<rparr>)"

inductive reachable :: "revision \<Rightarrow> session \<Rightarrow> bool" for rv :: revision where
  reach_start: "reachable rv \<lparr>ui = initial, outstanding = 0\<rparr>"
| reach_step: "reachable rv c \<Longrightarrow> step rv ev c c' \<Longrightarrow> reachable rv c'"

subsection \<open>Sample values\<close>

text \<open>
  Three files of two bytes each (\<open>CI\<close>, \<open>PL\<close> and \<open>BL\<close>, in base64 \<open>Q0k=\<close>, \<open>UEw=\<close> and
  \<open>Qkw=\<close>) and an environment in which the key is set, the constructor refuses only an
  absent key, every read succeeds with the data URL of the file and the service answers
  with a text.
\<close>

definition invoice_pdf :: File where
  "invoice_pdf = \<lparr>file_name = ''ci.pdf'', file_size = 2, file_type = ''application/pdf'',
     file_content = ''CI''\<rparr>"

definition packing_png :: File where
  "packing_png = \<lparr>file_name = ''pl.png'', file_size = 2, file_type = ''image/png'',
     file_content = ''PL''\<rparr>"

definition lading_pdf :: File where
  "lading_pdf = \<lparr>file_name = ''bl.pdf'', file_size = 2, file_type = ''application/pdf'',
     file_content = ''BL''\<rparr>"

definition sample_env :: env where
  "sample_env =
     \<lparr>API_KEY = Some ''k'',
      newGoogleGenAI =
        (\<lambda>k. if k = None then Some (Error ''An API Key must be set when running in a browser'')
             else None),
      readAsDataURL =
        (\<lambda>f. Some (''data:'' @ file_type f @ '';base64,'' @
           (if file_content f = ''CI'' then ''Q0k=''
            else if file_content f = ''PL'' then ''UEw='' else ''Qkw=''))),
      generateContent = (\<lambda>r. Resolved (Some ''Invoice Number: 7''))\<rparr>"

section \<open>Properties\<close>

subsection \<open>Selecting a file\<close>

lemma slot_file_setter: "slot_file (setter k f s) k' = (if k' = k then f else slot_file s k')"
  by (cases k; cases k') simp_all

lemma handleFileChange_dismissed:
  "handleFileChange_part000 (Some []) k s = s"
  "handleFileChange_index (Some []) k s = (setter k None s)\<lparr>result := Some [], error := []\<rparr>"
  "handleFileChange_part000 None k s = s"
  "handleFileChange_index None k s = s"
  by (simp_all add: handleFileChange_index_def handleFileChange_part000_def js_index_def)

text \<open>
  Claim C5. When a file is selected in a slot, that is, the \<open>change\<close> event carries at
  least one file, both revisions of \<open>handleFileChange\<close> leave the result and the error
  empty, whatever they were, and the slot holds the first file of the event.
\<close>

theorem handleFileChange_clears:
  assumes "files = Some (f # fs)"
  shows "result (handleFileChange_index files k s) = Some []
       \<and> error (handleFileChange_index files k s) = []
       \<and> slot_file (handleFileChange_index files k s) k = Some f
       \<and> result (handleFileChange_part000 files k s) = Some []
       \<and> error (handleFileChange_part000 files k s) = []
       \<and> slot_file (handleFileChange_part000 files k s) k = Some f"
  using assms
  by (cases k) (simp_all add: handleFileChange_index_def handleFileChange_part000_def js_index_def)

theorem handleFileChange_clears_witness:
  "result (handleFileChange_part000 (Some [packing_png]) PL
       (initial\<lparr>result := Some ''Shipper: ACME'', error := ''Failed to fetch''\<rparr>)) = Some []
   \<and> error (handleFileChange_index (Some [packing_png]) PL
       (initial\<lparr>result := Some ''Shipper: ACME'', error := ''Failed to fetch''\<rparr>)) = []"
  using handleFileChange_clears
    [of "Some [packing_png]" packing_png "[]" PL
        "initial\<lparr>result := Some ''Shipper: ACME'', error := ''Failed to fetch''\<rparr>"]
  by simp

subsection \<open>Triggering with no file\<close>

text \<open>
  Claim C4. When no slot holds a file, \<open>handleAnalyze\<close> sets the error to the fixed
  message of its revision, both of which ask to upload at least one document, and makes
  no call at all: no file is read and no request is sent.
\<close>

theorem handleAnalyze_no_file:
  assumes "ciFile s = None" and "plFile s = None" and "blFile s = None"
  shows "error (state_of (handleAnalyze_index env s)) = ''Please upload at least one document.''
       \<and> effects_of (handleAnalyze_index env s) = []
       \<and> error (state_of (handleAnalyze_part000 env s)) =
           ''Please upload at least one document to begin analysis.''
       \<and> effects_of (handleAnalyze_part000 env s) = []"
  using assms
  by (simp add: handleAnalyze_index_def handleAnalyze_part000_def
        no_file_message_index_def no_file_message_part000_def)

theorem handleAnalyze_no_file_witness:
  "error (state_of (handleAnalyze_index sample_env initial)) =
     ''Please upload at least one document.''
   \<and> effects_of (handleAnalyze_part000 sample_env initial) = []"
  using handleAnalyze_no_file [of initial sample_env]
  by (simp add: initial_def)

text \<open>
  Claim C10. When no slot holds a file, \<open>handleAnalyze\<close> changes the error and nothing
  else: the loading flag, the three slots, the label of the copy button and the result
  are those of the state before, so a result shown before is still shown.
\<close>

theorem handleAnalyze_no_file_frame:
  assumes "ciFile s = None" and "plFile s = None" and "blFile s = None"
  shows "handleAnalyze_index env s = Refused (s\<lparr>error := no_file_message_index\<rparr>)
       \<and> handleAnalyze_part000 env s = Refused (s\<lparr>error := no_file_message_part000\<rparr>)
       \<and> (\<forall>s' \<in> {state_of (handleAnalyze_index env s), state_of (handleAnalyze_part000 env s)}.
            loading s' = loading s \<and> ciFile s' = ciFile s \<and> plFile s' = plFile s
            \<and> blFile s' = blFile s \<and> copyButtonText s' = copyButtonText s
            \<and> result s' = result s \<and> statusMessage s' = statusMessage s)"
  using assms
  by (simp add: handleAnalyze_index_def handleAnalyze_part000_def)

theorem handleAnalyze_no_file_frame_witness:
  "result (state_of (handleAnalyze_part000 sample_env
       (initial\<lparr>result := Some ''Carrier: MSC'', copyButtonText := ''Copied!''\<rparr>)))
     = Some ''Carrier: MSC''
   \<and> copyButtonText (state_of (handleAnalyze_index sample_env
       (initial\<lparr>result := Some ''Carrier: MSC'', copyButtonText := ''Copied!''\<rparr>)))
     = ''Copied!''"
  using handleAnalyze_no_file_frame
    [of "initial\<lparr>result := Some ''Carrier: MSC'', copyButtonText := ''Copied!''\<rparr>" sample_env]
  by (simp add: initial_def)

subsection \<open>Assembling the parts\<close>

lemma message_facts:
  "missing_key_message \<noteq> no_file_message_part000"
  "missing_key_message \<noteq> empty_response_message"
  "missing_key_message \<noteq> unexpected_message_part000"
  "missing_key_message \<noteq> configuration_error_message"
  "\<not> str_includes missing_key_message ''API Key must be set''"
  "\<not> str_includes empty_response_message ''API Key must be set''"
  by (simp_all add: missing_key_message_def no_file_message_part000_def empty_response_message_def
        unexpected_message_part000_def configuration_error_message_def)

lemma push_part_cases:
  "push_part enc None b = b"
  "push_part enc (Some file) (effs, Resolved ps) =
     (case enc file of
        Resolved p \<Rightarrow> (effs @ [ReadFile file], Resolved (ps @ [p]))
      | Rejected e \<Rightarrow> (effs @ [ReadFile file], Rejected e)
      | Pending \<Rightarrow> (effs @ [ReadFile file], Pending))"
  "push_part enc f (effs, Rejected e) = (effs, Rejected e)"
  "push_part enc f (effs, Pending) = (effs, Pending)"
  by (auto simp: push_part_def split: prod.splits promise.splits)

lemma build_parts_resolved:
  assumes "\<forall>f \<in> set (List.map_filter id [ciFile s, plFile s, blFile s]). enc f = Resolved (part f)"
  shows "build_parts enc p s =
           (map ReadFile (List.map_filter id [ciFile s, plFile s, blFile s]),
            Resolved (Text p # map part (List.map_filter id [ciFile s, plFile s, blFile s])))"
  using assms
  by (cases "ciFile s"; cases "plFile s"; cases "blFile s")
     (simp_all add: build_parts_def push_part_cases List.map_filter_simps)

lemma populated_empty:
  "populated s = [] \<longleftrightarrow> ciFile s = None \<and> plFile s = None \<and> blFile s = None"
  by (cases "ciFile s"; cases "plFile s"; cases "blFile s")
     (simp_all add: populated_def List.map_filter_simps)

lemma build_parts_index_readable:
  assumes "\<forall>f \<in> set (populated s). readAsDataURL env f \<noteq> None"
  shows "build_parts (fileToGenerativePart_index env) p s =
           (map ReadFile (populated s), Resolved (Text p # map (encoded env) (populated s)))"
  unfolding populated_def
  apply (rule build_parts_resolved)
  using assms by (auto simp: populated_def fileToGenerativePart_index_def encoded_def)

lemma build_parts_part000_readable:
  assumes "\<forall>f \<in> set (populated s). readAsDataURL env f \<noteq> None"
  shows "build_parts (fileToGenerativePart_part000 env) p s =
           (map ReadFile (populated s), Resolved (Text p # map (encoded env) (populated s)))"
  unfolding populated_def
  apply (rule build_parts_resolved)
  using assms by (auto simp: populated_def fileToGenerativePart_part000_def encoded_def)

lemma sample_reads:
  "readAsDataURL sample_env invoice_pdf = Some ''data:application/pdf;base64,Q0k=''"
  "readAsDataURL sample_env packing_png = Some ''data:image/png;base64,UEw=''"
  "readAsDataURL sample_env lading_pdf = Some ''data:application/pdf;base64,Qkw=''"
  by (simp_all add: sample_env_def invoice_pdf_def packing_png_def lading_pdf_def)

lemma sample_encoded:
  "encoded sample_env invoice_pdf = InlineData (Some ''Q0k='') ''application/pdf''"
  "encoded sample_env packing_png = InlineData (Some ''UEw='') ''image/png''"
  "encoded sample_env lading_pdf = InlineData (Some ''Qkw='') ''application/pdf''"
  by (simp_all add: encoded_def sample_reads base64_of_def js_index_def)
     (simp_all add: invoice_pdf_def packing_png_def lading_pdf_def)

subsection \<open>The request\<close>

lemma requests_of_reads [simp]: "requests_of (map ReadFile fs @ es) = requests_of es"
  by (induction fs) simp_all

lemma reads_of_reads [simp]: "reads_of (map ReadFile fs @ es) = fs @ reads_of es"
  by (induction fs) simp_all

lemma populated_slot_file: "populated s = List.map_filter (slot_file s) [CI, PL, BL]"
  by (cases "ciFile s"; cases "plFile s"; cases "blFile s")
     (simp_all add: populated_def List.map_filter_simps)

lemma handleAnalyze_index_requests:
  assumes "populated s \<noteq> []"
    and "\<forall>f \<in> set (populated s). readAsDataURL env f \<noteq> None"
  shows "requests_of (effects_of (handleAnalyze_index env s)) =
           [\<lparr>model = model_index, parts = Text prompt_index # map (encoded env) (populated s)\<rparr>]
       \<and> reads_of (effects_of (handleAnalyze_index env s)) = populated s"
proof -
  have b: "build_parts (fileToGenerativePart_index env) prompt_index (prologue_index s) =
      (map ReadFile (populated s), Resolved (Text prompt_index # map (encoded env) (populated s)))"
    using build_parts_index_readable [OF assms(2), of prompt_index]
    by (simp add: build_parts_def prologue_index_def)
  show ?thesis
    using assms(1) b
    by (cases "generateContent env
          \<lparr>model = model_index, parts = Text prompt_index # map (encoded env) (populated s)\<rparr>")
       (simp_all add: handleAnalyze_index_def try_block_index_def populated_empty Let_def)
qed

lemma handleAnalyze_part000_requests:
  assumes "populated s \<noteq> []"
    and "\<forall>f \<in> set (populated s). readAsDataURL env f \<noteq> None"
    and "truthy (API_KEY env)" and "newGoogleGenAI env (API_KEY env) = None"
  shows "requests_of (effects_of (handleAnalyze_part000 env s)) =
           [\<lparr>model = model_part000,
             parts = Text prompt_part000 # map (encoded env) (populated s)\<rparr>]
       \<and> reads_of (effects_of (handleAnalyze_part000 env s)) = populated s"
proof -
  have b: "build_parts (fileToGenerativePart_part000 env) prompt_part000
        ((prologue_part000 s)\<lparr>statusMessage := ''Reading file data...''\<rparr>) =
      (map ReadFile (populated s), Resolved (Text prompt_part000 # map (encoded env) (populated s)))"
    using build_parts_part000_readable [OF assms(2), of prompt_part000]
    by (simp add: build_parts_def prologue_part000_def)
  show ?thesis
    using assms(1,3,4) b
    by (cases "generateContent env
          \<lparr>model = model_part000,
            parts = Text prompt_part000 # map (encoded env) (populated s)\<rparr>")
       (simp_all add: handleAnalyze_part000_def try_block_part000_def populated_empty Let_def)
qed

lemma slot_file_select_index:
  "slot_file (select_index evs s) k =
     (case map_of (rev evs) k of Some f \<Rightarrow> Some f | None \<Rightarrow> slot_file s k)"
proof (induction evs arbitrary: s)
  case Nil
  then show ?case by (simp add: select_index_def)
next
  case (Cons ev evs)
  obtain k' f where ev: "ev = (k', f)" by (cases ev)
  have "select_index (ev # evs) s = select_index evs (handleFileChange_index (Some [f]) k' s)"
    by (simp add: select_index_def ev)
  moreover have "slot_file (handleFileChange_index (Some [f]) k' s) k =
      (if k = k' then Some f else slot_file s k)"
    by (cases k; cases k') (simp_all add: handleFileChange_index_def js_index_def)
  ultimately show ?case
    using Cons.IH [of "handleFileChange_index (Some [f]) k' s"]
    by (simp add: ev map_add_def split: option.splits)
qed

lemma slot_file_select_part000:
  "slot_file (select_part000 evs s) k =
     (case map_of (rev evs) k of Some f \<Rightarrow> Some f | None \<Rightarrow> slot_file s k)"
proof (induction evs arbitrary: s)
  case Nil
  then show ?case by (simp add: select_part000_def)
next
  case (Cons ev evs)
  obtain k' f where ev: "ev = (k', f)" by (cases ev)
  have "select_part000 (ev # evs) s = select_part000 evs (handleFileChange_part000 (Some [f]) k' s)"
    by (simp add: select_part000_def ev)
  moreover have "slot_file (handleFileChange_part000 (Some [f]) k' s) k =
      (if k = k' then Some f else slot_file s k)"
    by (cases k; cases k') (simp_all add: handleFileChange_part000_def js_index_def)
  ultimately show ?case
    using Cons.IH [of "handleFileChange_part000 (Some [f]) k' s"]
    by (simp add: ev map_add_def split: option.splits)
qed

text \<open>
  Claim C1. Let the user select files in any order \<open>evs\<close>, a slot possibly more than once,
  starting from any state \<open>s\<close>. Then each slot holds the file selected last for it, or
  what it held in \<open>s\<close>. Let \<open>files\<close> be the files of the populated slots, read in the
  order invoice, packing list, bill of lading. If there is at least one and every read
  succeeds (and, in \<open>part_000\<close>, the key is set and the client can be built), the run
  sends exactly one request, and its parts are the fixed prompt followed by one part per
  file of \<open>files\<close>, in that order: the base64 text of the data URL with the MIME type
  of the file.
\<close>

theorem request_parts_in_slot_order:
  assumes "files = List.map_filter
             (\<lambda>k. case map_of (rev evs) k of Some f \<Rightarrow> Some f | None \<Rightarrow> slot_file s k)
             [CI, PL, BL]"
    and "files \<noteq> []"
    and "\<forall>f \<in> set files. readAsDataURL env f \<noteq> None"
  shows "requests_of (effects_of (handleAnalyze_index env (select_index evs s))) =
           [\<lparr>model = model_index, parts = Text prompt_index # map (encoded env) files\<rparr>]
       \<and> (truthy (API_KEY env) \<and> newGoogleGenAI env (API_KEY env) = None \<longrightarrow>
            requests_of (effects_of (handleAnalyze_part000 env (select_part000 evs s))) =
              [\<lparr>model = model_part000, parts = Text prompt_part000 # map (encoded env) files\<rparr>])"
proof -
  have i: "populated (select_index evs s) = files"
    unfolding populated_slot_file assms(1)
    by (rule arg_cong [where f = "\<lambda>g. List.map_filter g [CI, PL, BL]"])
       (rule ext, rule slot_file_select_index)
  have p: "populated (select_part000 evs s) = files"
    unfolding populated_slot_file assms(1)
    by (rule arg_cong [where f = "\<lambda>g. List.map_filter g [CI, PL, BL]"])
       (rule ext, rule slot_file_select_part000)
  show ?thesis
    using handleAnalyze_index_requests [of "select_index evs s" env]
      handleAnalyze_part000_requests [of "select_part000 evs s" env] assms(2,3)
    by (simp add: i p)
qed

theorem request_parts_in_slot_order_witness:
  "requests_of (effects_of (handleAnalyze_index sample_env
       (select_index [(BL, lading_pdf), (CI, invoice_pdf)] initial))) =
     [\<lparr>model = model_index,
       parts = [Text prompt_index, InlineData (Some ''Q0k='') ''application/pdf'',
                InlineData (Some ''Qkw='') ''application/pdf'']\<rparr>]
   \<and> requests_of (effects_of (handleAnalyze_part000 sample_env
       (select_part000 [(BL, lading_pdf), (PL, packing_png), (CI, invoice_pdf)] initial))) =
     [\<lparr>model = model_part000,
       parts = [Text prompt_part000, InlineData (Some ''Q0k='') ''application/pdf'',
                InlineData (Some ''UEw='') ''image/png'',
                InlineData (Some ''Qkw='') ''application/pdf'']\<rparr>]"
proof -
  have key: "truthy (API_KEY sample_env)" "newGoogleGenAI sample_env (API_KEY sample_env) = None"
    by (simp_all add: sample_env_def truthy_def)
  have two: "[invoice_pdf, lading_pdf] = List.map_filter
      (\<lambda>k. case map_of (rev [(BL, lading_pdf), (CI, invoice_pdf)]) k of
             Some f \<Rightarrow> Some f | None \<Rightarrow> slot_file initial k) [CI, PL, BL]"
    by (simp add: List.map_filter_simps initial_def)
  have three: "[invoice_pdf, packing_png, lading_pdf] = List.map_filter
      (\<lambda>k. case map_of (rev [(BL, lading_pdf), (PL, packing_png), (CI, invoice_pdf)]) k of
             Some f \<Rightarrow> Some f | None \<Rightarrow> slot_file initial k) [CI, PL, BL]"
    by (simp add: List.map_filter_simps)
  show ?thesis
    using request_parts_in_slot_order [OF two, of sample_env]
      request_parts_in_slot_order [OF three, of sample_env] key
    by (simp add: sample_reads sample_encoded)
qed

subsection \<open>A request that is answered\<close>

text \<open>
  When every read succeeds, the request is sent; these two lemmas give the whole run for
  an answer with text \<open>t\<close>. \<open>index.tsx\<close> stores \<open>t\<close> as it is. \<open>part_000\<close> stores a truthy
  \<open>t\<close> as it is, and turns a falsy one into the error \<open>empty_response_message\<close>.
\<close>

lemma handleAnalyze_index_response:
  assumes "populated s \<noteq> []"
    and "\<forall>f \<in> set (populated s). readAsDataURL env f \<noteq> None"
    and "req = \<lparr>model = model_index, parts = Text prompt_index # map (encoded env) (populated s)\<rparr>"
    and "generateContent env req = Resolved t"
  shows "handleAnalyze_index env s =
           Finished (s\<lparr>loading := False, result := t, error := [], copyButtonText := ''Copy''\<rparr>)
             (map ReadFile (populated s) @ [GenerateContent req])"
proof -
  have b: "build_parts (fileToGenerativePart_index env) prompt_index (prologue_index s) =
      (map ReadFile (populated s), Resolved (Text prompt_index # map (encoded env) (populated s)))"
    using build_parts_index_readable [OF assms(2), of prompt_index]
    by (simp add: build_parts_def prologue_index_def)
  show ?thesis
    using assms(1,3,4) b
    by (simp add: handleAnalyze_index_def try_block_index_def populated_empty
          prologue_index_def finally_index_def)
qed

lemma handleAnalyze_part000_response:
  assumes "populated s \<noteq> []"
    and "\<forall>f \<in> set (populated s). readAsDataURL env f \<noteq> None"
    and "truthy (API_KEY env)" and "newGoogleGenAI env (API_KEY env) = None"
    and "req = \<lparr>model = model_part000,
                 parts = Text prompt_part000 # map (encoded env) (populated s)\<rparr>"
    and "generateContent env req = Resolved t"
  shows "handleAnalyze_part000 env s =
           (if truthy t
            then Finished (s\<lparr>loading := False, result := t, error := [],
                             copyButtonText := ''Copy'', statusMessage := []\<rparr>)
                   (map ReadFile (populated s) @ [GenerateContent req])
            else Finished (s\<lparr>loading := False, result := Some [],
                             error := empty_response_message,
                             copyButtonText := ''Copy'', statusMessage := []\<rparr>)
                   (map ReadFile (populated s) @
                      [GenerateContent req, ConsoleError (Error empty_response_message)]))"
proof -
  have b: "build_parts (fileToGenerativePart_part000 env) prompt_part000
        ((prologue_part000 s)\<lparr>statusMessage := ''Reading file data...''\<rparr>) =
      (map ReadFile (populated s), Resolved (Text prompt_part000 # map (encoded env) (populated s)))"
    using build_parts_part000_readable [OF assms(2), of prompt_part000]
    by (simp add: build_parts_def prologue_part000_def)
  show ?thesis
    using assms(1,3-6) b message_facts(6)
    by (simp add: handleAnalyze_part000_def try_block_part000_def populated_empty
          prologue_part000_def finally_part000_def catch_part000_def)
qed


text \<open>
  Claim C3. A non-empty text returned by the service is stored as the result, unchanged,
  and an empty text must give an error and no result. \<open>part_000\<close> does both
  (\<open>handleAnalyze_part000_response\<close>). \<open>index.tsx\<close> has no test of the text: with one
  invoice selected and the service answering with the empty text, its run ends with the
  error empty and nothing to show, so the user sees neither a result nor an error.
\<close>

theorem handleAnalyze_index_empty_text:
  "handleAnalyze_index (sample_env\<lparr>generateContent := \<lambda>r. Resolved (Some [])\<rparr>)
       (initial\<lparr>ciFile := Some invoice_pdf\<rparr>) =
     Finished (initial\<lparr>ciFile := Some invoice_pdf\<rparr>)
       [ReadFile invoice_pdf,
        GenerateContent \<lparr>model = model_index,
          parts = [Text prompt_index, InlineData (Some ''Q0k='') ''application/pdf'']\<rparr>]
   \<and> error (initial\<lparr>ciFile := Some invoice_pdf\<rparr>) = []
   \<and> \<not> truthy (result (initial\<lparr>ciFile := Some invoice_pdf\<rparr>))"
  by (simp add: handleAnalyze_index_def try_block_index_def build_parts_def push_part_cases
        fileToGenerativePart_index_def prologue_index_def finally_index_def
        sample_env_def initial_def invoice_pdf_def base64_of_def js_index_def truthy_def)

subsection \<open>A missing key\<close>

lemma handleAnalyze_part000_missing_key:
  assumes "\<not> truthy (API_KEY env)"
    and "ciFile s \<noteq> None \<or> plFile s \<noteq> None \<or> blFile s \<noteq> None"
  shows "handleAnalyze_part000 env s =
           Finished (s\<lparr>loading := False, result := Some [], error := missing_key_message,
                       copyButtonText := ''Copy'', statusMessage := []\<rparr>)
             [ConsoleError (Error missing_key_message)]"
  using assms message_facts(5)
  by (auto simp: handleAnalyze_part000_def try_block_part000_def prologue_part000_def
        catch_part000_def finally_part000_def)

lemma handleAnalyze_index_ignores_key:
  "handleAnalyze_index (env\<lparr>API_KEY := k\<rparr>) s = handleAnalyze_index env s"
proof -
  have "fileToGenerativePart_index (env\<lparr>API_KEY := k\<rparr>) = fileToGenerativePart_index env"
    by (rule ext) (simp add: fileToGenerativePart_index_def)
  then show ?thesis
    by (simp add: handleAnalyze_index_def try_block_index_def)
qed

lemma handleAnalyze_part000_missing_key_effects:
  assumes "\<not> truthy (API_KEY env)"
    and "ciFile s \<noteq> None \<or> plFile s \<noteq> None \<or> blFile s \<noteq> None"
  shows "reads_of (effects_of (handleAnalyze_part000 env s)) = []
       \<and> requests_of (effects_of (handleAnalyze_part000 env s)) = []
       \<and> error (state_of (handleAnalyze_part000 env s)) = missing_key_message
       \<and> missing_key_message \<notin> {no_file_message_part000, empty_response_message,
            unexpected_message_part000, configuration_error_message}"
  using handleAnalyze_part000_missing_key [OF assms] message_facts
  by auto


subsection \<open>Failures of an accepted attempt\<close>

lemma try_block_part000_rejected:
  assumes "try_block_part000 env s = (s', effs, Rejected e)"
  shows "s'\<lparr>statusMessage := m\<rparr> = s\<lparr>statusMessage := m\<rparr>"
  using assms
  by (auto simp: try_block_part000_def Let_def
        split: if_splits option.splits prod.splits promise.splits)

lemma try_block_index_rejected:
  assumes "try_block_index env s = (s', effs, Rejected e)"
  shows "s' = s"
  using assms
  by (auto simp: try_block_index_def Let_def split: prod.splits promise.splits)

lemma handleAnalyze_part000_failure:
  assumes "try_block_part000 env (prologue_part000 s) = (s', effs, Rejected e)"
    and "ciFile s \<noteq> None \<or> plFile s \<noteq> None \<or> blFile s \<noteq> None"
  shows "handleAnalyze_part000 env s =
           Finished (s\<lparr>loading := False, result := Some [],
                       error := error (catch_part000 e s),
                       copyButtonText := ''Copy'', statusMessage := []\<rparr>)
             (effs @ [ConsoleError e])"
proof -
  have "s'\<lparr>statusMessage := []\<rparr> = (prologue_part000 s)\<lparr>statusMessage := []\<rparr>"
    using try_block_part000_rejected [OF assms(1)] .
  then have "finally_part000 (catch_part000 e s') =
      s\<lparr>loading := False, result := Some [], error := error (catch_part000 e s),
        copyButtonText := ''Copy'', statusMessage := []\<rparr>"
    by (cases s; cases s') (simp add: finally_part000_def catch_part000_def prologue_part000_def)
  then show ?thesis
    using assms by (auto simp: handleAnalyze_part000_def)
qed


lemma catch_part000_error_nonempty:
  assumes "e \<noteq> Error []"
  shows "error (catch_part000 e s) \<noteq> []"
  using assms
  by (cases e) (auto simp: catch_part000_def configuration_error_message_def
        unexpected_message_part000_def)


lemma handleAnalyze_index_read_failure:
  assumes "ciFile s = Some f" and "readAsDataURL env f = None"
  shows "handleAnalyze_index env s = Stuck (prologue_index s) [ReadFile f]"
  using assms
  by (simp add: handleAnalyze_index_def try_block_index_def build_parts_def push_part_cases
        fileToGenerativePart_index_def prologue_index_def)

text \<open>
  Claim C6. An accepted attempt that fails must end with an error message shown and the
  result empty. In \<open>part_000\<close> every throw inside \<open>try\<close> ends with the result empty and
  the message of the failure in the error (\<open>handleAnalyze_part000_failure\<close>), which is
  not empty unless the value thrown is an \<open>Error\<close> with an empty message
  (\<open>catch_part000_error_nonempty\<close>). In \<open>index.tsx\<close> two failures show nothing. A response without text is stored as the result and the
  error stays empty. A read that fails leaves the promise of \<open>fileToGenerativePart\<close>
  pending, so the handler never reaches \<open>catch\<close> or \<open>finally\<close>: the error stays empty
  and the loading flag stays set.
\<close>

theorem handleAnalyze_index_silent_failures:
  "handleAnalyze_index (sample_env\<lparr>generateContent := \<lambda>r. Resolved None\<rparr>)
       (initial\<lparr>plFile := Some packing_png\<rparr>) =
     Finished (initial\<lparr>plFile := Some packing_png, result := None\<rparr>)
       [ReadFile packing_png,
        GenerateContent \<lparr>model = model_index,
          parts = [Text prompt_index, InlineData (Some ''UEw='') ''image/png'']\<rparr>]
   \<and> error (initial\<lparr>plFile := Some packing_png, result := None\<rparr>) = []
   \<and> handleAnalyze_index (sample_env\<lparr>readAsDataURL := \<lambda>f. None\<rparr>)
       (initial\<lparr>plFile := Some packing_png\<rparr>) =
     Stuck (initial\<lparr>plFile := Some packing_png, loading := True\<rparr>) [ReadFile packing_png]"
  by (simp add: handleAnalyze_index_def try_block_index_def build_parts_def push_part_cases
        fileToGenerativePart_index_def prologue_index_def finally_index_def
        sample_env_def initial_def packing_png_def base64_of_def js_index_def)

subsection \<open>Copying the result\<close>

text \<open>
  Claim C8. When the result is a non-empty text, \<open>handleCopy\<close> hands exactly that text
  to the clipboard, sets the label to \<open>Copied!\<close> and schedules one callback with a delay
  of 2000 ms; that callback sets the label to \<open>Copy\<close> in whatever state it runs.
\<close>

theorem handleCopy_copies_result:
  assumes "result s = Some t" and "t \<noteq> []"
  shows "handleCopy s =
           (s\<lparr>copyButtonText := ''Copied!''\<rparr>,
            [ClipboardWrite t, SetTimeout (SetCopyButtonText ''Copy'') 2000])
         \<and> (\<forall>s'. copyButtonText (run_callback (SetCopyButtonText ''Copy'') s') = ''Copy'')"
  using assms by (simp add: handleCopy_def truthy_def)

theorem handleCopy_copies_result_witness:
  "handleCopy (initial\<lparr>result := Some ''Invoice Number: 7''\<rparr>) =
     (initial\<lparr>result := Some ''Invoice Number: 7'', copyButtonText := ''Copied!''\<rparr>,
      [ClipboardWrite ''Invoice Number: 7'', SetTimeout (SetCopyButtonText ''Copy'') 2000])"
  using handleCopy_copies_result
    [of "initial\<lparr>result := Some ''Invoice Number: 7''\<rparr>" "''Invoice Number: 7''"]
  by simp

text \<open>
  Claim C9. When the result is empty (or \<open>undefined\<close>), \<open>handleCopy\<close> does nothing: the
  state, and with it the label, is unchanged, nothing is handed to the clipboard and no
  timer is set.
\<close>

theorem handleCopy_empty_noop:
  assumes "\<not> truthy (result s)"
  shows "handleCopy s = (s, [])"
  using assms by (simp add: handleCopy_def truthy_def split: option.splits)

theorem handleCopy_empty_noop_witness:
  "handleCopy initial = (initial, [])
   \<and> handleCopy (initial\<lparr>result := None\<rparr>) = (initial\<lparr>result := None\<rparr>, [])"
  using handleCopy_empty_noop [of initial] handleCopy_empty_noop [of "initial\<lparr>result := None\<rparr>"]
  by (simp add: truthy_def initial_def)

subsection \<open>One request at a time\<close>

lemma loading_handleFileChange: "loading (handleFileChange rv files k s) = loading s"
  by (cases rv; cases k)
     (simp_all add: handleFileChange_index_def handleFileChange_part000_def
        split: option.splits)

lemma loading_handleCopy: "loading (fst (handleCopy s)) = loading s"
  by (simp add: handleCopy_def split: option.splits)

lemma loading_run_callback: "loading (run_callback cb s) = loading s"
  by (cases cb) simp

lemma loading_prologue: "loading (prologue rv s)"
  by (cases rv) (simp_all add: prologue_index_def prologue_part000_def)

lemma step_invariant:
  assumes "step rv ev c c'"
    and "outstanding c \<le> 1" and "0 < outstanding c \<longrightarrow> loading (ui c)"
  shows "outstanding c' \<le> 1 \<and> (0 < outstanding c' \<longrightarrow> loading (ui c'))"
  using assms
proof (cases rule: step.cases)
  case (trigger)
  then show ?thesis
    using assms(2,3) by (auto simp: disabled_def loading_prologue)
qed (auto simp: loading_handleFileChange loading_handleCopy loading_run_callback)

lemma reachable_invariant:
  assumes "reachable rv c"
  shows "outstanding c \<le> 1 \<and> (0 < outstanding c \<longrightarrow> loading (ui c))"
  using assms
proof (induction rule: reachable.induct)
  case reach_start
  then show ?case by simp
next
  case (reach_step c ev c')
  from reach_step.IH have "outstanding c \<le> 1" and "0 < outstanding c \<longrightarrow> loading (ui c)"
    by simp_all
  then show ?case by (rule step_invariant [OF reach_step.hyps(2)])
qed

text \<open>
  Claim C7. In every session reachable from the first render, the trigger button is
  disabled exactly when the loading flag is set or no slot holds a file: it is disabled
  when \<open>ciFile\<close>, \<open>plFile\<close> and \<open>blFile\<close> are all empty, it is disabled when the flag is
  set, and in no other state. While a call of \<open>handleAnalyze\<close> is outstanding the flag is
  set, hence the button disabled; at most one call is outstanding; and a click on the
  trigger is delivered only when none is outstanding, the flag is clear and some slot
  holds a file.
\<close>

theorem one_request_at_a_time:
  assumes "reachable rv c"
  shows "(disabled (ui c) \<longleftrightarrow> loading (ui c) \<or> \<not> anyFileUploaded (ui c))
       \<and> (0 < outstanding c \<longrightarrow> loading (ui c) \<and> disabled (ui c))
       \<and> outstanding c \<le> 1
       \<and> (\<forall>c'. step rv Trigger c c' \<longrightarrow> outstanding c = 0 \<and> outstanding c' = 1)
       \<and> (ciFile (ui c) = None \<and> plFile (ui c) = None \<and> blFile (ui c) = None
            \<longrightarrow> disabled (ui c))
       \<and> (loading (ui c) \<longrightarrow> disabled (ui c))
       \<and> (disabled (ui c) \<longrightarrow>
            loading (ui c)
            \<or> (ciFile (ui c) = None \<and> plFile (ui c) = None \<and> blFile (ui c) = None))
       \<and> (\<forall>c'. step rv Trigger c c' \<longrightarrow>
            \<not> loading (ui c)
            \<and> (ciFile (ui c) \<noteq> None \<or> plFile (ui c) \<noteq> None \<or> blFile (ui c) \<noteq> None))"
proof -
  have inv: "outstanding c \<le> 1" "0 < outstanding c \<longrightarrow> loading (ui c)"
    using reachable_invariant [OF assms] by simp_all
  have trig: "outstanding c = 0 \<and> outstanding c' = 1 \<and> \<not> loading (ui c)
      \<and> (ciFile (ui c) \<noteq> None \<or> plFile (ui c) \<noteq> None \<or> blFile (ui c) \<noteq> None)"
    if "step rv Trigger c c'" for c'
    using that inv by (cases rule: step.cases) (auto simp: disabled_def anyFileUploaded_def)
  show ?thesis
    using inv trig by (auto simp: disabled_def anyFileUploaded_def)
qed

lemma sample_run:
  "reachable Part000
     \<lparr>ui = prologue_part000 (handleFileChange_part000 (Some [invoice_pdf]) CI initial),
      outstanding = 1\<rparr>"
proof -
  let ?c0 = "\<lparr>ui = initial, outstanding = 0\<rparr>"
  let ?c1 = "?c0\<lparr>ui := handleFileChange Part000 (Some [invoice_pdf]) CI (ui ?c0)\<rparr>"
  have r1: "reachable Part000 ?c1"
    by (rule reach_step [OF reach_start select])
  have en: "\<not> disabled (ui ?c1)"
    by (simp add: disabled_def anyFileUploaded_def handleFileChange_part000_def js_index_def
          initial_def)
  have "reachable Part000 \<lparr>ui = prologue Part000 (ui ?c1), outstanding = Suc (outstanding ?c1)\<rparr>"
    by (rule reach_step [OF r1 trigger [OF en]])
  then show ?thesis by simp
qed

theorem one_request_at_a_time_witness:
  "reachable Part000
     \<lparr>ui = prologue_part000 (handleFileChange_part000 (Some [invoice_pdf]) CI initial),
      outstanding = 1\<rparr>
   \<and> disabled (prologue_part000 (handleFileChange_part000 (Some [invoice_pdf]) CI initial))
   \<and> \<not> step Part000 Trigger
        \<lparr>ui = prologue_part000 (handleFileChange_part000 (Some [invoice_pdf]) CI initial),
         outstanding = 1\<rparr>
        \<lparr>ui = prologue_part000 (prologue_part000
           (handleFileChange_part000 (Some [invoice_pdf]) CI initial)), outstanding = 2\<rparr>
   \<and> reachable Index \<lparr>ui = initial, outstanding = 0\<rparr>
   \<and> ciFile initial = None \<and> plFile initial = None \<and> blFile initial = None
   \<and> \<not> loading initial
   \<and> disabled initial
   \<and> (\<forall>c'. \<not> step Index Trigger \<lparr>ui = initial, outstanding = 0\<rparr> c')"
proof -
  have slots: "ciFile initial = None \<and> plFile initial = None \<and> blFile initial = None
      \<and> \<not> loading initial"
    by (simp add: initial_def)
  have start: "reachable Index \<lparr>ui = initial, outstanding = 0\<rparr>"
    by (rule reach_start)
  show ?thesis
    using sample_run one_request_at_a_time [OF sample_run]
      start one_request_at_a_time [OF start] slots
    by auto
qed

end
